theory Spec2Isabelle
  imports Main "HOL-Library.Sublist" "HOL-Library.AList"
begin

section \<open>Python strings and paths\<close>

text \<open>
  A Python \<open>str\<close> is modelled as a list of characters, one \<open>char\<close> per code point;
  code points beyond U+00FF are outside the model. Paths are POSIX paths in the
  normal form \<open>pathlib\<close> prints (no trailing slash, no empty components). Console
  output (\<open>print\<close>) is not modelled.
\<close>

definition dq :: char where
  "dq = CHR 0x22"

definition nl :: char where
  "nl = CHR 0x0A"

definition startswith :: "string \<Rightarrow> string \<Rightarrow> bool" where
  "startswith s p = prefix p s"

definition endswith :: "string \<Rightarrow> string \<Rightarrow> bool" where
  "endswith s p = prefix (rev p) (rev s)"

text \<open>\<open>sub in s\<close>\<close>

fun str_contains :: "string \<Rightarrow> string \<Rightarrow> bool" where
  "str_contains sub [] = (sub = [])"
| "str_contains sub (c # cs) = (prefix sub (c # cs) \<or> str_contains sub cs)"

text \<open>
  \<open>s.replace(old, new)\<close> for a non-empty \<open>old\<close> (every call in the source passes a
  non-empty literal): all non-overlapping occurrences, scanning from the left.
\<close>

function str_replace :: "string \<Rightarrow> string \<Rightarrow> string \<Rightarrow> string" where
  "str_replace old new [] = []"
| "str_replace old new (c # cs) =
     (if old \<noteq> [] \<and> prefix old (c # cs)
      then new @ str_replace old new (drop (length old) (c # cs))
      else c # str_replace old new cs)"
  by pat_completeness auto
termination
  by (relation "measure (\<lambda>(old, new, s). length s)") auto

text \<open>\<open>s.split('\n')\<close>\<close>

fun split_nl :: "string \<Rightarrow> string list" where
  "split_nl [] = [[]]"
| "split_nl (c # cs) =
     (if c = nl then [] # split_nl cs
      else (case split_nl cs of [] \<Rightarrow> [[c]] | l # ls \<Rightarrow> (c # l) # ls))"

text \<open>\<open>str.isspace\<close> on the code points below 256, the characters \<open>str.strip()\<close> removes.\<close>

definition isspace :: "char \<Rightarrow> bool" where
  "isspace c =
     (let n = (of_char c :: nat)
      in (9 \<le> n \<and> n \<le> 13) \<or> (28 \<le> n \<and> n \<le> 32) \<or> n = 133 \<or> n = 160)"

text \<open>The truth value of \<open>line.strip()\<close>: some character is left after stripping.\<close>

definition strip_nonempty :: "string \<Rightarrow> bool" where
  "strip_nonempty line = list_ex (\<lambda>c. \<not> isspace c) line"

text \<open>\<open>os.path.join(a, b)\<close> (posixpath)\<close>

definition os_path_join :: "string \<Rightarrow> string \<Rightarrow> string" where
  "os_path_join a b =
     (if startswith b ''/'' then b
      else if a = [] then b
      else if last a = CHR ''/'' then a @ b
      else a @ ''/'' @ b)"

section \<open>The world: files, processes, the converter object\<close>

datatype exn = OSError | ValueError | UnicodeDecodeError | FileNotFoundError
  | IsADirectoryError | NotADirectoryError | FileExistsError | ImportError

text \<open>A JSON value, as \<open>json.load\<close> and \<open>request.get_json\<close> produce it (numbers as integers).\<close>

datatype json = JNull | JBool bool | JNum int | JStr string
  | JArr "json list" | JObj "(string \<times> json) list"

text \<open>Python truthiness of a JSON value (\<open>if config:\<close>)\<close>

fun truthy :: "json \<Rightarrow> bool" where
  "truthy JNull = False"
| "truthy (JBool b) = b"
| "truthy (JNum n) = (n \<noteq> 0)"
| "truthy (JStr s) = (s \<noteq> [])"
| "truthy (JArr xs) = (xs \<noteq> [])"
| "truthy (JObj kvs) = (kvs \<noteq> [])"

text \<open>A PIL image: the canvas and the drawing calls made on it, in order.\<close>

datatype font = TrueType string nat | DefaultFont

datatype draw_op =
    Rectangle "int list" string int "string option"
  | DrawText "int \<times> int" string string font
  | Line "int list" string int
  | Polygon "(int \<times> int) list" string

record image =
  img_width :: int
  img_height :: int
  img_color :: string
  img_ops :: "draw_op list"

datatype content = Text string | Png image | Binary

datatype node = Dir | File content

type_synonym files = "(string \<times> node) list"

definition os_path_exists :: "string \<Rightarrow> files \<Rightarrow> bool" where
  "os_path_exists p fs = (map_of fs p \<noteq> None)"

definition is_dir :: "string \<Rightarrow> files \<Rightarrow> bool" where
  "is_dir p fs = (map_of fs p = Some Dir)"

text \<open>\<open>os.unlink\<close>: removes a file; raises for a missing path and for a directory.\<close>

definition os_unlink :: "string \<Rightarrow> files \<Rightarrow> exn + files" where
  "os_unlink p fs =
     (case map_of fs p of
        None \<Rightarrow> Inl FileNotFoundError
      | Some Dir \<Rightarrow> Inl IsADirectoryError
      | Some (File c) \<Rightarrow> Inr (AList.delete p fs))"

datatype cmd = Shell string | Argv "string list"

datatype proc_result =
    Completed (returncode: int) (stdout: string) (stderr: string)
  | TimeoutExpired
  | Raised

text \<open>
  What the program cannot decide itself: where the script lives, how an external
  command behaves on the current files within a timeout, which name a new temporary
  file gets (\<open>None\<close>: creating it raises), whether PIL can be imported, whether
  \<open>arial.ttf\<close> can be loaded, whether a file can be written at a path, the JSON
  parser (\<open>None\<close>: the text is not JSON) and printer, and werkzeug's
  \<open>secure_filename\<close>.
\<close>

record env =
  script_dir :: string
  run_proc :: "cmd \<Rightarrow> nat \<Rightarrow> files \<Rightarrow> proc_result \<times> files"
  new_temp :: "string \<Rightarrow> files \<Rightarrow> string option"
  pil_available :: bool
  has_arial :: bool
  can_write :: "string \<Rightarrow> files \<Rightarrow> bool"
  json_loads :: "string \<Rightarrow> json option"
  json_dumps :: "json \<Rightarrow> string"
  secure_filename :: "string \<Rightarrow> string"

text \<open>
  The state threaded through every operation: the file system, the history of
  \<open>subprocess.run\<close> calls with their outcomes, the two fields of the (single)
  \<open>MermaidConverter\<close> object, and a counter of the calls of \<open>_find_mermaid_cli\<close>.
\<close>

record state =
  files :: files
  proc_log :: "(cmd \<times> proc_result) list"
  mermaid_cli :: "string option"
  demo_mode :: bool
  discovery_runs :: nat

definition subprocess_run :: "env \<Rightarrow> cmd \<Rightarrow> nat \<Rightarrow> state \<Rightarrow> proc_result \<times> state" where
  "subprocess_run e c t s =
     (case run_proc e c t (files s) of
        (r, fs') \<Rightarrow> (r, s\<lparr>files := fs', proc_log := proc_log s @ [(c, r)]\<rparr>))"

text \<open>
  \<open>tempfile.NamedTemporaryFile(mode='w', suffix=..., delete=False)\<close>, written and closed:
  the new path, holding the content.
\<close>

definition named_temporary_file :: "env \<Rightarrow> string \<Rightarrow> content \<Rightarrow> state \<Rightarrow> exn + (string \<times> state)" where
  "named_temporary_file e sfx c s =
     (case new_temp e sfx (files s) of
        None \<Rightarrow> Inl OSError
      | Some p \<Rightarrow> Inr (p, s\<lparr>files := AList.update p (File c) (files s)\<rparr>))"

section \<open>\<open>MermaidConverter\<close>: discovery\<close>

text \<open>
  The clean-up block of the probe: \<open>os.unlink(temp_input_path)\<close>, then the output file
  when it exists; any exception ends the block (\<open>except: pass\<close>).
\<close>

definition probe_cleanup :: "string \<Rightarrow> string \<Rightarrow> state \<Rightarrow> state" where
  "probe_cleanup temp_input_path temp_output_path s =
     (case os_unlink temp_input_path (files s) of
        Inl _ \<Rightarrow> s
      | Inr fs1 \<Rightarrow>
          (if os_path_exists temp_output_path fs1
           then (case os_unlink temp_output_path fs1 of
                   Inl _ \<Rightarrow> s\<lparr>files := fs1\<rparr>
                 | Inr fs2 \<Rightarrow> s\<lparr>files := fs2\<rparr>)
           else s\<lparr>files := fs1\<rparr>))"

definition test_cmd :: "string \<Rightarrow> string \<Rightarrow> string \<Rightarrow> string" where
  "test_cmd cli_path temp_input_path temp_output_path =
     (if str_contains ''node '' cli_path
      then cli_path @ '' -i '' @ [dq] @ temp_input_path @ [dq]
             @ '' -o '' @ [dq] @ temp_output_path @ [dq]
      else [dq] @ cli_path @ [dq] @ '' -i '' @ [dq] @ temp_input_path @ [dq]
             @ '' -o '' @ [dq] @ temp_output_path @ [dq])"

definition test_mermaid_cli_with_conversion :: "env \<Rightarrow> string \<Rightarrow> state \<Rightarrow> bool \<times> state" where
  "test_mermaid_cli_with_conversion e cli_path s =
     (case named_temporary_file e ''.mmd'' (Text ''graph TD; A-->B'') s of
        Inl _ \<Rightarrow> (False, s)
      | Inr (temp_input_path, s1) \<Rightarrow>
          (let temp_output_path = str_replace ''.mmd'' ''.png'' temp_input_path
           in case subprocess_run e (Shell (test_cmd cli_path temp_input_path temp_output_path)) 30 s1 of
                (Completed rc out err, s2) \<Rightarrow>
                  (rc = 0, probe_cleanup temp_input_path temp_output_path s2)
              | (_, s2) \<Rightarrow> (False, s2)))"

definition possible_paths :: "env \<Rightarrow> string list" where
  "possible_paths e =
     [ foldl os_path_join (script_dir e) [''node_modules'', ''.bin'', ''mmdc.cmd''],
       foldl os_path_join (script_dir e) [''node_modules'', ''.bin'', ''mmdc''],
       foldl os_path_join (script_dir e) [''node_modules'', ''.bin'', ''mmdc.ps1''],
       ''node '' @ foldl os_path_join (script_dir e)
                    [''node_modules'', ''@mermaid-js'', ''mermaid-cli'', ''dist'', ''cli.js''],
       ''mmdc'',
       ''npx @mermaid-js/mermaid-cli'' ]"

text \<open>
  The part of the loop body after the version query: \<open>Some path\<close> is \<open>return path\<close>,
  \<open>None\<close> goes on with the next candidate (also after an exception).
\<close>

definition after_version :: "env \<Rightarrow> string \<Rightarrow> proc_result \<times> state \<Rightarrow> string option \<times> state" where
  "after_version e path rs =
     (case rs of
        (Completed rc out err, s1) \<Rightarrow>
          (if rc = 0 \<and> out \<noteq> []
           then (case test_mermaid_cli_with_conversion e path s1 of
                   (ok, s2) \<Rightarrow> (if ok then (Some path, s2) else (None, s2)))
           else (None, s1))
      | (_, s1) \<Rightarrow> (None, s1))"

definition try_candidate :: "env \<Rightarrow> string \<Rightarrow> state \<Rightarrow> string option \<times> state" where
  "try_candidate e path s =
     (if startswith path ''node '' then
        (let js_file = str_replace ''node '' '''' path
         in if \<not> os_path_exists js_file (files s) then (None, s)
            else after_version e path (subprocess_run e (Shell (path @ '' --version'')) 15 s))
      else if str_contains ''npx'' path then
        (case subprocess_run e (Shell ''npm list @mermaid-js/mermaid-cli'') 10 s of
           (Completed rc out err, s1) \<Rightarrow>
             (if out \<noteq> [] \<and> str_contains ''@mermaid-js/mermaid-cli'' out
              then (Some path, s1) else (None, s1))
         | (_, s1) \<Rightarrow> (None, s1))
      else after_version e path
             (subprocess_run e (Shell ([dq] @ path @ [dq] @ '' --version'')) 10 s))"

fun find_loop :: "env \<Rightarrow> string list \<Rightarrow> state \<Rightarrow> string option \<times> state" where
  "find_loop e [] s = (None, s)"
| "find_loop e (path # rest) s =
     (case try_candidate e path s of
        (Some p, s1) \<Rightarrow> (Some p, s1)
      | (None, s1) \<Rightarrow> find_loop e rest s1)"

definition find_mermaid_cli :: "env \<Rightarrow> state \<Rightarrow> string option \<times> state" where
  "find_mermaid_cli e s =
     find_loop e (possible_paths e) (s\<lparr>discovery_runs := Suc (discovery_runs s)\<rparr>)"

definition MermaidConverter_init :: "env \<Rightarrow> state \<Rightarrow> state" where
  "MermaidConverter_init e s =
     (case find_mermaid_cli e s of
        (r, s1) \<Rightarrow> s1\<lparr>mermaid_cli := r, demo_mode := (r = None)\<rparr>)"

section \<open>\<open>MermaidConverter\<close>: the placeholder image\<close>

definition code_ops :: "font \<Rightarrow> string list \<Rightarrow> draw_op list" where
  "code_ops font_small lines =
     concat (map (\<lambda>(i, line).
                    if strip_nonempty line
                    then [DrawText (100, 450 + 20 + int i * 15) (take 50 line) ''#95a5a6'' font_small]
                    else [])
                 (enumerate 0 lines))"

definition demo_image :: "env \<Rightarrow> string \<Rightarrow> image" where
  "demo_image e mermaid_code =
     (let width = 800; height = 600;
          font_large = (if has_arial e then TrueType ''arial.ttf'' 24 else DefaultFont);
          font_medium = (if has_arial e then TrueType ''arial.ttf'' 16 else DefaultFont);
          font_small = (if has_arial e then TrueType ''arial.ttf'' 12 else DefaultFont);
          lines = take 5 (split_nl mermaid_code);
          y_pos = 450
      in \<lparr> img_width = width, img_height = height, img_color = ''white'',
           img_ops =
             [ Rectangle [50, 50, width - 50, height - 50] ''#333'' 2 None,
               DrawText (width div 2 - 100, 80) ''Mermaid Diagram'' ''#333'' font_large,
               DrawText (width div 2 - 80, 110) ''(Demo Mode)'' ''#666'' font_medium,
               Rectangle [150, 200, 300, 250] ''#3498db'' 2 (Some ''#ecf0f1''),
               DrawText (225 - 30, 220) ''Start'' ''#2c3e50'' font_medium,
               Line [300, 225, 350, 225] ''#333'' 2,
               Polygon [(345, 220), (355, 225), (345, 230)] ''#333'',
               Rectangle [400, 200, 550, 250] ''#e74c3c'' 2 (Some ''#fadbd8''),
               DrawText (475 - 30, 220) ''Process'' ''#2c3e50'' font_medium,
               Line [475, 250, 475, 300] ''#333'' 2,
               Polygon [(470, 295), (475, 305), (480, 295)] ''#333'',
               Rectangle [400, 350, 550, 400] ''#27ae60'' 2 (Some ''#d5f4e6''),
               DrawText (475 - 20, 370) ''End'' ''#2c3e50'' font_medium,
               DrawText (100, y_pos) ''Original Mermaid Code:'' ''#7f8c8d'' font_small ]
             @ code_ops font_small lines
             @ [ DrawText (100, 550) ''Note: Install Mermaid CLI for actual conversion''
                   ''#e67e22'' font_small ] \<rparr>)"

text \<open>
  \<open>_create_demo_image\<close>: \<open>False\<close> when PIL cannot be imported, and \<open>False\<close> when
  \<open>img.save\<close> raises (the \<open>except Exception\<close> of the drawing block); it never raises.
\<close>

definition create_demo_image :: "env \<Rightarrow> string \<Rightarrow> string \<Rightarrow> state \<Rightarrow> bool \<times> state" where
  "create_demo_image e mermaid_code output_path s =
     (if \<not> pil_available e then (False, s)
      else if can_write e output_path (files s)
      then (True, s\<lparr>files := AList.update output_path
                               (File (Png (demo_image e mermaid_code))) (files s)\<rparr>)
      else (False, s))"

section \<open>\<open>MermaidConverter\<close>: conversion\<close>

text \<open>
  \<open>_check_dependencies\<close>: only \<open>subprocess.TimeoutExpired\<close> is caught; any other
  exception of \<open>subprocess.run\<close> leaves the method.
\<close>

definition check_dependencies :: "env \<Rightarrow> state \<Rightarrow> (exn + bool) \<times> state" where
  "check_dependencies e s =
     (case mermaid_cli s of
        None \<Rightarrow> (Inr False, s)
      | Some cli \<Rightarrow>
          (if cli = [] then (Inr False, s)
           else (case subprocess_run e (Shell (cli @ '' --help'')) 10 s of
                   (Completed rc out err, s1) \<Rightarrow> (Inr (rc = 0), s1)
                 | (TimeoutExpired, s1) \<Rightarrow> (Inr False, s1)
                 | (Raised, s1) \<Rightarrow> (Inl OSError, s1))))"

text \<open>\<open>" ".join(xs)\<close>\<close>

fun join_sp :: "string list \<Rightarrow> string" where
  "join_sp [] = []"
| "join_sp [x] = x"
| "join_sp (x # y # ys) = x @ '' '' @ join_sp (y # ys)"

text \<open>
  The command of a conversion, from the assignments to \<open>cmd\<close> in the \<open>try\<close> block:
  a shell string for a \<open>node\<close> or \<open>npx\<close> candidate, an argument list otherwise.
\<close>

definition convert_cmd :: "string \<Rightarrow> string \<Rightarrow> string \<Rightarrow> string option \<Rightarrow> cmd" where
  "convert_cmd cli temp_input output_path config_file_path =
     (if startswith cli ''node ''
      then Shell (join_sp [cli, ''-i'', temp_input, ''-o'', output_path]
                  @ (case config_file_path of None \<Rightarrow> [] | Some c \<Rightarrow> '' -c '' @ c))
      else (let args = [cli, ''-i'', temp_input, ''-o'', output_path]
                         @ (case config_file_path of None \<Rightarrow> [] | Some c \<Rightarrow> [''-c'', c])
            in if str_contains ''npx'' cli then Shell (join_sp args) else Argv args))"

text \<open>The \<open>finally\<close> block of \<open>convert_mermaid_text\<close>; any exception ends it.\<close>

definition convert_cleanup :: "string \<Rightarrow> string option \<Rightarrow> state \<Rightarrow> state" where
  "convert_cleanup temp_input config_file_path s =
     (case (if os_path_exists temp_input (files s)
            then os_unlink temp_input (files s) else Inr (files s)) of
        Inl _ \<Rightarrow> s
      | Inr fs1 \<Rightarrow>
          (case config_file_path of
             None \<Rightarrow> s\<lparr>files := fs1\<rparr>
           | Some c \<Rightarrow>
               (if c \<noteq> [] \<and> os_path_exists c fs1
                then (case os_unlink c fs1 of
                        Inl _ \<Rightarrow> s\<lparr>files := fs1\<rparr>
                      | Inr fs2 \<Rightarrow> s\<lparr>files := fs2\<rparr>)
                else s\<lparr>files := fs1\<rparr>)))"

text \<open>
  \<open>if config:\<close> in the \<open>try\<close> block: a truthy configuration is dumped into a new
  temporary \<open>.json\<close> file, whose path is \<open>config_file_path\<close>.
\<close>

definition write_config :: "env \<Rightarrow> json option \<Rightarrow> state \<Rightarrow> exn + (string option \<times> state)" where
  "write_config e config s =
     (case config of
        None \<Rightarrow> Inr (None, s)
      | Some j \<Rightarrow>
          (if truthy j
           then (case named_temporary_file e ''.json'' (Text (json_dumps e j)) s of
                   Inl x \<Rightarrow> Inl x
                 | Inr (c, s1) \<Rightarrow> Inr (Some c, s1))
           else Inr (None, s)))"

text \<open>
  The \<open>try\<close> block without its \<open>finally\<close>: the result and the path of the
  configuration file, when one was created.
\<close>

definition convert_attempt ::
  "env \<Rightarrow> string \<Rightarrow> string \<Rightarrow> json option \<Rightarrow> string \<Rightarrow> state \<Rightarrow> (bool \<times> string option) \<times> state" where
  "convert_attempt e mermaid_code output_path config temp_input s =
     (case mermaid_cli s of
        None \<Rightarrow>
          (case create_demo_image e mermaid_code output_path s of (b, s') \<Rightarrow> ((b, None), s'))
      | Some cli \<Rightarrow>
          (case write_config e config s of
             Inl _ \<Rightarrow>
               (case create_demo_image e mermaid_code output_path s of (b, s') \<Rightarrow> ((b, None), s'))
           | Inr (config_file_path, s1) \<Rightarrow>
               (case subprocess_run e (convert_cmd cli temp_input output_path config_file_path) 45 s1 of
                  (Completed rc out err, s2) \<Rightarrow>
                    (if rc = 0 \<and> os_path_exists output_path (files s2)
                     then ((True, config_file_path), s2)
                     else (case create_demo_image e mermaid_code output_path s2 of
                             (b, s') \<Rightarrow> ((b, config_file_path), s')))
                | (_, s2) \<Rightarrow>
                    (case create_demo_image e mermaid_code output_path s2 of
                       (b, s') \<Rightarrow> ((b, config_file_path), s')))))"

definition convert_mermaid_text ::
  "env \<Rightarrow> string \<Rightarrow> string \<Rightarrow> json option \<Rightarrow> state \<Rightarrow> (exn + bool) \<times> state" where
  "convert_mermaid_text e mermaid_code output_path config s =
     (if demo_mode s
      then (case create_demo_image e mermaid_code output_path s of (b, s') \<Rightarrow> (Inr b, s'))
      else (case check_dependencies e s of
              (Inl x, s1) \<Rightarrow> (Inl x, s1)
            | (Inr False, s1) \<Rightarrow>
                (case create_demo_image e mermaid_code output_path s1 of (b, s') \<Rightarrow> (Inr b, s'))
            | (Inr True, s1) \<Rightarrow>
                (case named_temporary_file e ''.mmd'' (Text mermaid_code) s1 of
                   Inl x \<Rightarrow> (Inl x, s1)
                 | Inr (temp_input, s2) \<Rightarrow>
                     (case convert_attempt e mermaid_code output_path config temp_input s2 of
                        ((b, config_file_path), s3) \<Rightarrow>
                          (Inr b, convert_cleanup temp_input config_file_path s3)))))"

section \<open>Files and directories\<close>

text \<open>\<open>Path.name\<close>, \<open>Path.suffix\<close> and \<open>Path.stem\<close> of pathlib\<close>

definition path_name :: "string \<Rightarrow> string" where
  "path_name p = (if p = ''.'' then [] else rev (takeWhile (\<lambda>c. c \<noteq> CHR ''/'') (rev p)))"

text \<open>\<open>name.rfind('.')\<close>: the index of the last dot\<close>

fun rfind_dot :: "string \<Rightarrow> nat option" where
  "rfind_dot [] = None"
| "rfind_dot (c # cs) =
     (case rfind_dot cs of
        Some i \<Rightarrow> Some (Suc i)
      | None \<Rightarrow> (if c = CHR ''.'' then Some 0 else None))"

definition name_suffix :: "string \<Rightarrow> string" where
  "name_suffix name =
     (case rfind_dot name of
        None \<Rightarrow> []
      | Some i \<Rightarrow> (if 0 < i \<and> Suc i < length name then drop i name else []))"

definition name_stem :: "string \<Rightarrow> string" where
  "name_stem name =
     (case rfind_dot name of
        None \<Rightarrow> name
      | Some i \<Rightarrow> (if 0 < i \<and> Suc i < length name then take i name else name))"

text \<open>\<open>Path(p).with_suffix(sfx)\<close>; a path with an empty name raises \<open>ValueError\<close>.\<close>

definition with_suffix :: "string \<Rightarrow> string \<Rightarrow> exn + string" where
  "with_suffix p sfx =
     (let name = path_name p
      in if name = [] then Inl ValueError
         else Inr (take (length p - length name) p @ name_stem name @ sfx))"

text \<open>\<open>Path(d) / name\<close> for a single path component \<open>name\<close>\<close>

definition path_child :: "string \<Rightarrow> string \<Rightarrow> string" where
  "path_child d name =
     (if d = ''.'' then name
      else if d = ''/'' then ''/'' @ name
      else d @ ''/'' @ name)"

text \<open>\<open>list(Path(d).glob("*.mmd"))\<close>: the entries of the directory whose name ends in \<open>.mmd\<close>\<close>

definition glob_mmd :: "string \<Rightarrow> files \<Rightarrow> string list" where
  "glob_mmd d fs =
     filter (\<lambda>p. path_name p \<noteq> [] \<and> p = path_child d (path_name p)
                  \<and> endswith (path_name p) ''.mmd'')
            (remdups (map fst fs))"

text \<open>
  The directory a new entry is made in: \<open>Path(p).parent\<close>, or \<open>None\<close> when that is
  the root or the current directory, which always exist.
\<close>

definition path_parent :: "string \<Rightarrow> string option" where
  "path_parent p =
     (let name = path_name p; pre = take (length p - length name) p
      in if name = [] \<or> pre = [] \<or> pre = ''/'' then None else Some (butlast pre))"

text \<open>
  \<open>os.mkdir(p)\<close>: raises when the path exists, when its parent is missing and when its
  parent is a file.
\<close>

definition os_mkdir :: "string \<Rightarrow> files \<Rightarrow> exn + files" where
  "os_mkdir p fs =
     (if map_of fs p \<noteq> None then Inl FileExistsError
      else (case path_parent p of
              None \<Rightarrow> Inr (AList.update p Dir fs)
            | Some q \<Rightarrow>
                (case map_of fs q of
                   None \<Rightarrow> Inl FileNotFoundError
                 | Some Dir \<Rightarrow> Inr (AList.update p Dir fs)
                 | Some (File c) \<Rightarrow> Inl NotADirectoryError)))"

text \<open>\<open>Path(p).mkdir(parents=False, exist_ok=True)\<close>\<close>

definition mkdir_exist_ok :: "string \<Rightarrow> files \<Rightarrow> exn + files" where
  "mkdir_exist_ok p fs =
     (case os_mkdir p fs of
        Inr fs1 \<Rightarrow> Inr fs1
      | Inl x \<Rightarrow> (if x \<noteq> FileNotFoundError \<and> is_dir p fs then Inr fs else Inl x))"

text \<open>
  \<open>Path(p).mkdir(parents=True, exist_ok=True)\<close>, as pathlib does it: \<open>os.mkdir\<close> first;
  on \<open>FileNotFoundError\<close> the parent is made in the same way and the directory is made
  again; any other error is passed over when the path is a directory.
\<close>

function mkdir_parents :: "string \<Rightarrow> files \<Rightarrow> exn + files" where
  "mkdir_parents p fs =
     (case os_mkdir p fs of
        Inr fs1 \<Rightarrow> Inr fs1
      | Inl x \<Rightarrow>
          (if x = FileNotFoundError
           then (case path_parent p of
                   None \<Rightarrow> Inl x
                 | Some q \<Rightarrow>
                     (case mkdir_parents q fs of
                        Inl y \<Rightarrow> Inl y
                      | Inr fs1 \<Rightarrow> mkdir_exist_ok p fs1))
           else if is_dir p fs then Inr fs else Inl x))"
  by pat_completeness auto
termination
proof (relation "measure (\<lambda>(p, fs). length p)", goal_cases)
  case 1
  show ?case by simp
next
  case (2 p fs x q)
  then have "path_parent p = Some q" by simp
  then have "length q < length p"
    unfolding path_parent_def Let_def
    by (cases "path_name p = []") (auto split: if_splits)
  then show ?case by simp
qed

declare mkdir_parents.simps [simp del]

text \<open>
  The text mode of \<open>open\<close> translates the line endings \<open>\r\n\<close> and \<open>\r\<close> to
  \<open>\n\<close> on reading.
\<close>

fun universal_newlines :: "string \<Rightarrow> string" where
  "universal_newlines [] = []"
| "universal_newlines [c] = (if c = CHR 0x0D then [CHR 0x0A] else [c])"
| "universal_newlines (c # c' # cs) =
     (if c = CHR 0x0D \<and> c' = CHR 0x0A then CHR 0x0A # universal_newlines cs
      else if c = CHR 0x0D then CHR 0x0A # universal_newlines (c' # cs)
      else c # universal_newlines (c' # cs))"

text \<open>\<open>open(p, 'r', encoding='utf-8').read()\<close>\<close>

definition read_text :: "string \<Rightarrow> files \<Rightarrow> exn + string" where
  "read_text p fs =
     (case map_of fs p of
        None \<Rightarrow> Inl FileNotFoundError
      | Some Dir \<Rightarrow> Inl IsADirectoryError
      | Some (File (Text t)) \<Rightarrow> Inr (universal_newlines t)
      | Some (File _) \<Rightarrow> Inl UnicodeDecodeError)"

section \<open>\<open>MermaidConverter\<close>: files and directories\<close>

text \<open>
  \<open>convert_file\<close>: \<open>with_suffix\<close> is called outside the \<open>try\<close>; inside it every
  exception, also one leaving \<open>convert_mermaid_text\<close>, gives \<open>False\<close>.
\<close>

definition convert_file ::
  "env \<Rightarrow> string \<Rightarrow> string option \<Rightarrow> json option \<Rightarrow> state \<Rightarrow> (exn + bool) \<times> state" where
  "convert_file e input_file output_file config s =
     (if \<not> os_path_exists input_file (files s) then (Inr False, s)
      else (case (case output_file of
                    None \<Rightarrow> with_suffix input_file ''.png''
                  | Some out \<Rightarrow> Inr out) of
              Inl x \<Rightarrow> (Inl x, s)
            | Inr out \<Rightarrow>
                (case read_text input_file (files s) of
                   Inl _ \<Rightarrow> (Inr False, s)
                 | Inr mermaid_code \<Rightarrow>
                     (case convert_mermaid_text e mermaid_code out config s of
                        (Inl _, s1) \<Rightarrow> (Inr False, s1)
                      | (Inr b, s1) \<Rightarrow> (Inr b, s1)))))"

text \<open>\<open>output_path / f"{mmd_file.stem}.png"\<close>\<close>

definition batch_output_file :: "string \<Rightarrow> string \<Rightarrow> string" where
  "batch_output_file output_path mmd_file =
     path_child output_path (name_stem (path_name mmd_file) @ ''.png'')"

text \<open>The loop of \<open>batch_convert\<close>: the number of files converted.\<close>

fun batch_loop ::
  "env \<Rightarrow> string \<Rightarrow> json option \<Rightarrow> string list \<Rightarrow> state \<Rightarrow> (exn + nat) \<times> state" where
  "batch_loop e output_path config [] s = (Inr 0, s)"
| "batch_loop e output_path config (mmd_file # rest) s =
     (let output_file = batch_output_file output_path mmd_file
      in case convert_file e mmd_file (Some output_file) config s of
           (Inl x, s1) \<Rightarrow> (Inl x, s1)
         | (Inr b, s1) \<Rightarrow>
             (case batch_loop e output_path config rest s1 of
                (Inl x, s2) \<Rightarrow> (Inl x, s2)
              | (Inr n, s2) \<Rightarrow> (Inr (if b then Suc n else n), s2)))"

text \<open>\<open>if output_directory:\<close> in \<open>batch_convert\<close>: the directory the images go to.\<close>

definition prepare_output :: "string \<Rightarrow> string option \<Rightarrow> state \<Rightarrow> exn + (string \<times> state)" where
  "prepare_output input_directory output_directory s =
     (case output_directory of
        None \<Rightarrow> Inr (input_directory, s)
      | Some od \<Rightarrow>
          (if od = [] then Inr (input_directory, s)
           else (case mkdir_parents od (files s) of
                   Inl x \<Rightarrow> Inl x
                 | Inr fs1 \<Rightarrow> Inr (od, s\<lparr>files := fs1\<rparr>))))"

definition batch_convert ::
  "env \<Rightarrow> string \<Rightarrow> string option \<Rightarrow> json option \<Rightarrow> state \<Rightarrow> (exn + nat \<times> nat) \<times> state" where
  "batch_convert e input_directory output_directory config s =
     (if \<not> (os_path_exists input_directory (files s) \<and> is_dir input_directory (files s))
      then (Inr (0, 0), s)
      else (case prepare_output input_directory output_directory s of
              Inl x \<Rightarrow> (Inl x, s)
            | Inr (output_path, s1) \<Rightarrow>
                (let mmd_files = glob_mmd input_directory (files s1)
                 in if mmd_files = [] then (Inr (0, 0), s1)
                    else (case batch_loop e output_path config mmd_files s1 of
                            (Inl x, s2) \<Rightarrow> (Inl x, s2)
                          | (Inr successful, s2) \<Rightarrow>
                              (Inr (successful, length mmd_files), s2)))))"

section \<open>The command line\<close>

record args =
  arg_file :: "string option"
  arg_output :: "string option"
  arg_directory :: "string option"
  arg_output_directory :: "string option"
  arg_text :: "string option"
  arg_config :: "string option"
  arg_sample :: bool
  arg_check :: bool

text \<open>The truth value of an optional string argument: given and not empty.\<close>

definition given :: "string option \<Rightarrow> bool" where
  "given a = (case a of None \<Rightarrow> False | Some v \<Rightarrow> v \<noteq> [])"

text \<open>The string of an argument that is given.\<close>

definition arg_str :: "string option \<Rightarrow> string" where
  "arg_str a = (case a of None \<Rightarrow> [] | Some v \<Rightarrow> v)"

text \<open>
  \<open>create_sample_mermaid\<close> writes \<open>sample.mmd\<close>; the labels of the sample, which are
  not Latin-1, are left out of the text.
\<close>

definition sample_content :: string where
  "sample_content = ''graph TD'' @ [nl] @ ''    A --> B'' @ [nl]"

definition create_sample_mermaid :: "env \<Rightarrow> state \<Rightarrow> (exn + unit) \<times> state" where
  "create_sample_mermaid e s =
     (if can_write e ''sample.mmd'' (files s)
      then (Inr (), s\<lparr>files := AList.update ''sample.mmd'' (File (Text sample_content)) (files s)\<rparr>)
      else (Inl OSError, s))"

text \<open>The configuration file of \<open>main\<close>: \<open>None\<close> when reading or parsing raises.\<close>

definition load_config :: "env \<Rightarrow> string \<Rightarrow> state \<Rightarrow> json option" where
  "load_config e p s =
     (case read_text p (files s) of
        Inl _ \<Rightarrow> None
      | Inr t \<Rightarrow> json_loads e t)"

text \<open>The dispatch of \<open>main\<close> once the converter is built and the configuration loaded.\<close>

definition main_dispatch :: "env \<Rightarrow> args \<Rightarrow> json option \<Rightarrow> state \<Rightarrow> (exn + int) \<times> state" where
  "main_dispatch e a config s =
     (if arg_check a then
        (case check_dependencies e s of
           (Inl x, s1) \<Rightarrow> (Inl x, s1)
         | (Inr ok, s1) \<Rightarrow> (Inr (if ok then 0 else 1), s1))
      else if arg_sample a then
        (case create_sample_mermaid e s of
           (Inl x, s1) \<Rightarrow> (Inl x, s1)
         | (Inr _, s1) \<Rightarrow> (Inr 0, s1))
      else if given (arg_text a) then
        (let output_file = (if given (arg_output a) then arg_str (arg_output a) else ''output.png'')
         in case convert_mermaid_text e (arg_str (arg_text a)) output_file config s of
              (Inl x, s1) \<Rightarrow> (Inl x, s1)
            | (Inr ok, s1) \<Rightarrow> (Inr (if ok then 0 else 1), s1))
      else if given (arg_file a) then
        (case convert_file e (arg_str (arg_file a)) (arg_output a) config s of
           (Inl x, s1) \<Rightarrow> (Inl x, s1)
         | (Inr ok, s1) \<Rightarrow> (Inr (if ok then 0 else 1), s1))
      else if given (arg_directory a) then
        (case batch_convert e (arg_str (arg_directory a)) (arg_output_directory a) config s of
           (Inl x, s1) \<Rightarrow> (Inl x, s1)
         | (Inr (successful, total_count), s1) \<Rightarrow>
             (Inr (if successful = total_count then 0 else 1), s1))
      else (Inr 1, s))"

definition main :: "env \<Rightarrow> args \<Rightarrow> state \<Rightarrow> (exn + int) \<times> state" where
  "main e a s =
     (let s0 = MermaidConverter_init e s
      in if given (arg_config a)
         then (case load_config e (arg_str (arg_config a)) s0 of
                 None \<Rightarrow> (Inr 1, s0)
               | Some j \<Rightarrow> main_dispatch e a (Some j) s0)
         else main_dispatch e a None s0)"

section \<open>The web API: \<open>POST /api/convert\<close>\<close>






section \<open>Notions used in the properties\<close>

text \<open>The converter object is the same in two states.\<close>

definition same_converter :: "state \<Rightarrow> state \<Rightarrow> bool" where
  "same_converter s s' =
     (mermaid_cli s' = mermaid_cli s \<and> demo_mode s' = demo_mode s
      \<and> discovery_runs s' = discovery_runs s)"

text \<open>
  An external conversion has failed: the process timed out, could not be run, exited
  with a non-zero code, or exited with zero and left no file at the output path.
\<close>

definition conversion_failed :: "proc_result \<Rightarrow> string \<Rightarrow> state \<Rightarrow> bool" where
  "conversion_failed r output_path s =
     (case r of
        Completed rc out err \<Rightarrow> \<not> (rc = 0 \<and> os_path_exists output_path (files s))
      | TimeoutExpired \<Rightarrow> True
      | Raised \<Rightarrow> True)"

text \<open>The texts an image shows in the colour of the code excerpt, in drawing order.\<close>

fun excerpt_texts :: "draw_op list \<Rightarrow> string list" where
  "excerpt_texts [] = []"
| "excerpt_texts (DrawText pos t fill f # ops) =
     (if fill = ''#95a5a6'' then t # excerpt_texts ops else excerpt_texts ops)"
| "excerpt_texts (_ # ops) = excerpt_texts ops"

text \<open>
  The excerpt in the words of the specification: the first non-empty lines of the input,
  up to \<open>n\<close> of them, each cut to \<open>w\<close> characters (a line of white space only is taken
  as empty).
\<close>

definition spec_excerpt :: "nat \<Rightarrow> nat \<Rightarrow> string \<Rightarrow> string list" where
  "spec_excerpt n w mermaid_code = map (take w) (take n (filter strip_nonempty (split_nl mermaid_code)))"

text \<open>What the log of a discovery shows for the candidate it returned.\<close>

definition evidence :: "string \<Rightarrow> (cmd \<times> proc_result) list \<Rightarrow> bool" where
  "evidence p L =
     ((str_contains ''npx'' p \<and> \<not> startswith p ''node '' \<and>
        (\<exists>rc out err. (Shell ''npm list @mermaid-js/mermaid-cli'', Completed rc out err) \<in> set L
           \<and> out \<noteq> [] \<and> str_contains ''@mermaid-js/mermaid-cli'' out))
      \<or> (\<exists>tin out err. (Shell (test_cmd p tin (str_replace ''.mmd'' ''.png'' tin)),
                            Completed 0 out err) \<in> set L))"

section \<open>Example environments\<close>

definition state0 :: state where
  "state0 = \<lparr> files = [], proc_log = [], mermaid_cli = None, demo_mode = False,
              discovery_runs = 0 \<rparr>"

text \<open>No command works; PIL works and every path can be written.\<close>

definition env_none :: env where
  "env_none =
     \<lparr> script_dir = ''/app'',
       run_proc = (\<lambda>c t fs. (Completed 1 [] ''not found'', fs)),
       new_temp = (\<lambda>sfx fs. Some (''/tmp/tmp0'' @ sfx)),
       pil_available = True,
       has_arial = False,
       can_write = (\<lambda>p fs. True),
       json_loads = (\<lambda>t. None),
       json_dumps = (\<lambda>j. ''{}''),
       secure_filename = (\<lambda>f. f) \<rparr>"

text \<open>Only \<open>npm list\<close> works, and it lists the package; every other command exits with 1.\<close>

definition env_npx :: env where
  "env_npx = env_none\<lparr> run_proc := (\<lambda>c t fs.
       if c = Shell ''npm list @mermaid-js/mermaid-cli''
       then (Completed 0 ''app@1.0.0 /app +-- @mermaid-js/mermaid-cli@10.6.1'' [], fs)
       else (Completed 1 [] ''not found'', fs)) \<rparr>"

text \<open>Every command runs into its timeout.\<close>

definition env_hang :: env where
  "env_hang = env_none\<lparr> run_proc := (\<lambda>c t fs. (TimeoutExpired, fs)) \<rparr>"

text \<open>The global \<open>mmdc\<close> answers every shell command with exit code 0; nothing else works.\<close>

definition env_mmdc :: env where
  "env_mmdc = env_none\<lparr> run_proc := (\<lambda>c t fs.
       case c of
         Shell x \<Rightarrow> (if startswith x ([dq] @ ''mmdc'' @ [dq])
                     then (Completed 0 ''10.6.1'' [], fs)
                     else (Completed 1 [] ''not found'', fs))
       | Argv xs \<Rightarrow> (Completed 1 [] ''not found'', fs)) \<rparr>"

text \<open>PIL works, but no path can be written.\<close>

definition env_ro :: env where
  "env_ro = env_none\<lparr> can_write := (\<lambda>p fs. False) \<rparr>"

text \<open>
  \<open>mmdc --help\<close> exits with 0 and every other command runs into its timeout; a
  temporary \<open>.mmd\<close> file can be created, a temporary \<open>.json\<close> file cannot.
\<close>

definition env_help_only :: env where
  "env_help_only = env_none\<lparr>
       run_proc := (\<lambda>c t fs.
         if c = Shell ''mmdc --help'' then (Completed 0 ''usage'' [], fs)
         else (TimeoutExpired, fs)),
       new_temp := (\<lambda>sfx fs. if sfx = ''.mmd'' then Some ''/tmp/tmp0.mmd'' else None) \<rparr>"

definition state_demo :: state where
  "state_demo = state0\<lparr> demo_mode := True \<rparr>"

definition state_mmdc :: state where
  "state_mmdc = state0\<lparr> mermaid_cli := Some ''mmdc'' \<rparr>"

text \<open>Six lines, the second of them empty.\<close>

definition code_gap :: string where
  "code_gap = ''a'' @ [nl] @ [nl] @ ''b'' @ [nl] @ ''c'' @ [nl] @ ''d'' @ [nl] @ ''e''"

definition args_none :: args where
  "args_none = \<lparr> arg_file = None, arg_output = None, arg_directory = None,
                 arg_output_directory = None, arg_text = None, arg_config = None,
                 arg_sample = False, arg_check = False \<rparr>"

text \<open>A directory with two diagrams, in demo mode.\<close>

definition state_two :: state where
  "state_two = state_demo\<lparr> files :=
      [ (''/d'', Dir),
        (''/d/a.mmd'', File (Text ''graph TD; A-->B'')),
        (''/d/notes.txt'', File (Text ''todo'')),
        (''/d/b.mmd'', File (Text ''graph LR; X-->Y'')) ] \<rparr>"


section \<open>Properties of discovery\<close>

lemma probe_cleanup_log [simp]: "proc_log (probe_cleanup a b s) = proc_log s"
  by (simp add: probe_cleanup_def split: sum.splits)

lemma named_temporary_file_log:
  "named_temporary_file e sfx c s = Inr (p, s1) \<Longrightarrow> proc_log s1 = proc_log s"
  by (auto simp: named_temporary_file_def split: option.splits)

lemma subprocess_run_log:
  "subprocess_run e c t s = (r, s1) \<Longrightarrow> proc_log s1 = proc_log s @ [(c, r)]"
  by (auto simp: subprocess_run_def split: prod.splits)

lemma evidence_mono: "evidence p L \<Longrightarrow> evidence p (L0 @ L)"
  unfolding evidence_def by auto

lemma test_conversion_True:
  assumes "test_mermaid_cli_with_conversion e p s = (True, s')"
  shows "\<exists>tin out err. proc_log s' = proc_log s @
           [(Shell (test_cmd p tin (str_replace ''.mmd'' ''.png'' tin)), Completed 0 out err)]"
  using assms
  by (auto simp: test_mermaid_cli_with_conversion_def Let_def
      split: sum.splits prod.splits proc_result.splits
      dest!: named_temporary_file_log subprocess_run_log)

lemma test_conversion_log:
  "\<exists>L. proc_log (snd (test_mermaid_cli_with_conversion e p s)) = proc_log s @ L"
  by (auto simp: test_mermaid_cli_with_conversion_def Let_def
      split: sum.splits prod.splits proc_result.splits
      dest!: named_temporary_file_log subprocess_run_log)

lemma after_version_Some:
  assumes "after_version e p (r, s0) = (Some q, s')"
  shows "q = p \<and> (\<exists>tin out err. proc_log s' = proc_log s0 @
           [(Shell (test_cmd p tin (str_replace ''.mmd'' ''.png'' tin)), Completed 0 out err)])"
  using assms
  by (auto simp: after_version_def split: proc_result.splits if_splits prod.splits
      dest: test_conversion_True)

lemma after_version_log:
  "\<exists>L. proc_log (snd (after_version e p (r, s0))) = proc_log s0 @ L"
  using test_conversion_log[of e p s0]
  by (auto simp: after_version_def split: proc_result.splits if_splits prod.splits)

lemma try_candidate_log:
  "\<exists>L. proc_log (snd (try_candidate e p s)) = proc_log s @ L"
proof -
  have av: "\<And>c t. \<exists>L. proc_log (snd (after_version e p (subprocess_run e c t s))) = proc_log s @ L"
  proof -
    fix c t
    obtain r s1 where rs: "subprocess_run e c t s = (r, s1)" by (cases "subprocess_run e c t s")
    from after_version_log[of e p r s1] subprocess_run_log[OF rs] rs
    show "\<exists>L. proc_log (snd (after_version e p (subprocess_run e c t s))) = proc_log s @ L"
      by auto
  qed
  show ?thesis
    unfolding try_candidate_def Let_def
    using av
    by (auto split: prod.splits proc_result.splits dest!: subprocess_run_log)
qed

lemma try_candidate_Some:
  assumes "try_candidate e p s = (Some q, s')"
  shows "q = p \<and> (\<exists>L. proc_log s' = proc_log s @ L \<and> evidence p L)"
proof -
  have av: "\<And>c t. after_version e p (subprocess_run e c t s) = (Some q, s') \<Longrightarrow>
      q = p \<and> (\<exists>L. proc_log s' = proc_log s @ L \<and> evidence p L)"
  proof -
    fix c t
    assume a: "after_version e p (subprocess_run e c t s) = (Some q, s')"
    obtain r s1 where rs: "subprocess_run e c t s = (r, s1)" by (cases "subprocess_run e c t s")
    from a rs have "after_version e p (r, s1) = (Some q, s')" by simp
    from after_version_Some[OF this] obtain tin out err where
      q: "q = p" and l: "proc_log s' = proc_log s1 @
           [(Shell (test_cmd p tin (str_replace ''.mmd'' ''.png'' tin)), Completed 0 out err)]"
      by blast
    have "(Shell (test_cmd p tin (str_replace ''.mmd'' ''.png'' tin)), Completed 0 out err)
            \<in> set ([(c, r)] @ [(Shell (test_cmd p tin (str_replace ''.mmd'' ''.png'' tin)), Completed 0 out err)])"
      by simp
    then have "evidence p ([(c, r)] @ [(Shell (test_cmd p tin (str_replace ''.mmd'' ''.png'' tin)), Completed 0 out err)])"
      unfolding evidence_def by blast
    with q l subprocess_run_log[OF rs] show "q = p \<and> (\<exists>L. proc_log s' = proc_log s @ L \<and> evidence p L)"
      by auto
  qed
  show ?thesis
  proof (cases "startswith p ''node ''")
    case True
    with assms av show ?thesis
      by (auto simp: try_candidate_def Let_def split: if_splits)
  next
    case False
    show ?thesis
    proof (cases "str_contains ''npx'' p")
      case True
      with False assms show ?thesis
        by (auto simp: try_candidate_def evidence_def
            split: prod.splits proc_result.splits if_splits dest!: subprocess_run_log)
    next
      case nn: False
      with False assms av show ?thesis
        by (auto simp: try_candidate_def Let_def split: if_splits)
    qed
  qed
qed

lemma find_loop_Some:
  "find_loop e ps s = (Some q, s') \<Longrightarrow>
     q \<in> set ps \<and> (\<exists>L. proc_log s' = proc_log s @ L \<and> evidence q L)"
proof (induction ps arbitrary: s)
  case Nil
  then show ?case by simp
next
  case (Cons p ps)
  obtain r s1 where t: "try_candidate e p s = (r, s1)" by (cases "try_candidate e p s")
  show ?case
  proof (cases r)
    case None
    with Cons.prems t have "find_loop e ps s1 = (Some q, s')" by simp
    from Cons.IH[OF this] obtain L where q: "q \<in> set ps" and
      l: "proc_log s' = proc_log s1 @ L" and ev: "evidence q L" by blast
    from try_candidate_log[of e p s] t obtain L0 where "proc_log s1 = proc_log s @ L0" by auto
    with l have "proc_log s' = proc_log s @ (L0 @ L)" by simp
    with q evidence_mono[OF ev] show ?thesis by (metis list.set_intros(2))
  next
    case (Some x)
    with Cons.prems t have eq: "x = q" "s1 = s'" by auto
    from try_candidate_Some[of e p s q s'] t Some eq show ?thesis by auto
  qed
qed

text \<open>
  C1, as amended. A candidate returned by \<open>_find_mermaid_cli\<close> is one of the enumerated
  candidates, and the commands run during this discovery show either that it is the
  package-runner case (it contains \<open>npx\<close> and is not a \<open>node\<close> command) and
  \<open>npm list @mermaid-js/mermaid-cli\<close> printed the package name, or that the trial
  conversion of \<open>_test_mermaid_cli_with_conversion\<close> for this candidate exited with
  code zero.
\<close>

theorem find_mermaid_cli_accepts:
  assumes "find_mermaid_cli e s = (Some p, s')"
  shows "p \<in> set (possible_paths e) \<and>
     (\<exists>L. proc_log s' = proc_log s @ L \<and>
       ((str_contains ''npx'' p \<and> \<not> startswith p ''node '' \<and>
          (\<exists>rc out err. (Shell ''npm list @mermaid-js/mermaid-cli'', Completed rc out err) \<in> set L
             \<and> out \<noteq> [] \<and> str_contains ''@mermaid-js/mermaid-cli'' out))
        \<or> (\<exists>tin out err. (Shell (test_cmd p tin (str_replace ''.mmd'' ''.png'' tin)),
                              Completed 0 out err) \<in> set L)))"
  using find_loop_Some[of e "possible_paths e" "s\<lparr>discovery_runs := Suc (discovery_runs s)\<rparr>" p s'] assms
  unfolding find_mermaid_cli_def evidence_def by simp

lemmas eval_find = find_mermaid_cli_def possible_paths_def env_mmdc_def env_npx_def env_none_def state0_def try_candidate_def
     startswith_def os_path_join_def subprocess_run_def after_version_def dq_def test_mermaid_cli_with_conversion_def
     named_temporary_file_def test_cmd_def probe_cleanup_def os_unlink_def os_path_exists_def

theorem find_mermaid_cli_accepts_witness:
  "fst (find_mermaid_cli env_mmdc state0) = Some ''mmdc''
   \<and> ''mmdc'' \<in> set (possible_paths env_mmdc)
   \<and> (\<exists>L. proc_log (snd (find_mermaid_cli env_mmdc state0)) = proc_log state0 @ L \<and>
       ((str_contains ''npx'' ''mmdc'' \<and> \<not> startswith ''mmdc'' ''node '' \<and>
          (\<exists>rc out err. (Shell ''npm list @mermaid-js/mermaid-cli'', Completed rc out err) \<in> set L
             \<and> out \<noteq> [] \<and> str_contains ''@mermaid-js/mermaid-cli'' out))
        \<or> (\<exists>tin out err. (Shell (test_cmd ''mmdc'' tin (str_replace ''.mmd'' ''.png'' tin)),
                              Completed 0 out err) \<in> set L)))"
proof -
  have f: "fst (find_mermaid_cli env_mmdc state0) = Some ''mmdc''"
    by (simp add: eval_find)
  then have h: "find_mermaid_cli env_mmdc state0 = (Some ''mmdc'', snd (find_mermaid_cli env_mmdc state0))"
    by (simp add: prod_eq_iff)
  show ?thesis
    using f find_mermaid_cli_accepts [OF h] by blast
qed

text \<open>
  C1, as stated, fails: where only \<open>npm list\<close> works, the package-runner candidate is
  returned although no trial conversion was run, and a trial conversion of it fails.
\<close>

theorem npx_accepted_without_conversion:
  "fst (find_mermaid_cli env_npx state0) = Some ''npx @mermaid-js/mermaid-cli''
   \<and> map fst (proc_log (snd (find_mermaid_cli env_npx state0))) =
       [ Shell ([dq] @ ''/app/node_modules/.bin/mmdc.cmd'' @ [dq] @ '' --version''),
         Shell ([dq] @ ''/app/node_modules/.bin/mmdc'' @ [dq] @ '' --version''),
         Shell ([dq] @ ''/app/node_modules/.bin/mmdc.ps1'' @ [dq] @ '' --version''),
         Shell ([dq] @ ''mmdc'' @ [dq] @ '' --version''),
         Shell ''npm list @mermaid-js/mermaid-cli'' ]
   \<and> fst (test_mermaid_cli_with_conversion env_npx ''npx @mermaid-js/mermaid-cli''
            (snd (find_mermaid_cli env_npx state0))) = False"
  by (simp add: eval_find)

text \<open>
  When the trial conversion completes and leaves the temporary input file in place (and
  no directory at the output path), both temporary files are gone after the probe.
\<close>

lemma probe_cleanup_removes:
  assumes "map_of (files s) tin = Some (File c)" and "map_of (files s) tout \<noteq> Some Dir"
  shows "\<not> os_path_exists tin (files (probe_cleanup tin tout s))
         \<and> \<not> os_path_exists tout (files (probe_cleanup tin tout s))"
proof (cases "tout = tin")
  case True
  with assms show ?thesis
    by (simp add: probe_cleanup_def os_unlink_def os_path_exists_def delete_conv')
next
  case False
  with assms show ?thesis
    by (cases "map_of (files s) tout")
       (auto simp: probe_cleanup_def os_unlink_def os_path_exists_def delete_conv'
             split: node.splits)
qed

lemma probe_cleans_up_after_completion:
  assumes "named_temporary_file e ''.mmd'' (Text ''graph TD; A-->B'') s = Inr (tin, s1)"
    and "subprocess_run e (Shell (test_cmd p tin (str_replace ''.mmd'' ''.png'' tin))) 30 s1
           = (Completed rc out err, s2)"
    and "map_of (files s2) tin = Some (File c)"
    and "map_of (files s2) (str_replace ''.mmd'' ''.png'' tin) \<noteq> Some Dir"
  shows "fst (test_mermaid_cli_with_conversion e p s) = (rc = 0)
         \<and> \<not> os_path_exists tin (files (snd (test_mermaid_cli_with_conversion e p s)))
         \<and> \<not> os_path_exists (str_replace ''.mmd'' ''.png'' tin)
               (files (snd (test_mermaid_cli_with_conversion e p s)))"
  using assms(1,2) probe_cleanup_removes[OF assms(3,4)]
  by (simp add: test_mermaid_cli_with_conversion_def Let_def)

text \<open>
  C4, at an input where it fails. A trial conversion that runs into its timeout leaves
  the temporary input file behind: the clean-up of the probe is not reached when
  \<open>subprocess.run\<close> raises.
\<close>

theorem probe_timeout_leaves_temp_input:
  "fst (test_mermaid_cli_with_conversion env_hang ''mmdc'' state0) = False
   \<and> \<not> os_path_exists ''/tmp/tmp0.mmd'' (files state0)
   \<and> os_path_exists ''/tmp/tmp0.mmd''
        (files (snd (test_mermaid_cli_with_conversion env_hang ''mmdc'' state0)))"
  by (simp add: test_mermaid_cli_with_conversion_def env_hang_def env_none_def state0_def
      named_temporary_file_def subprocess_run_def os_path_exists_def)

section \<open>Properties of \<open>convert_file\<close>\<close>



section \<open>The converter object\<close>

lemma same_converter_refl [simp]: "same_converter s s"
  by (simp add: same_converter_def)

lemma same_converter_files [simp]: "same_converter s (s'\<lparr>files := fs\<rparr>) = same_converter s s'"
  by (simp add: same_converter_def)

lemma same_converter_log [simp]: "same_converter s (s'\<lparr>proc_log := l\<rparr>) = same_converter s s'"
  by (simp add: same_converter_def)

lemma subprocess_run_same:
  "subprocess_run e c t s = (r, s') \<Longrightarrow> same_converter s0 s \<Longrightarrow> same_converter s0 s'"
  by (auto simp: subprocess_run_def split: prod.splits)

lemma named_temporary_file_same:
  "named_temporary_file e sfx c s = Inr (p, s') \<Longrightarrow> same_converter s0 s \<Longrightarrow> same_converter s0 s'"
  by (auto simp: named_temporary_file_def split: option.splits)

lemma create_demo_image_same:
  "create_demo_image e code out s = (b, s') \<Longrightarrow> same_converter s0 s \<Longrightarrow> same_converter s0 s'"
  by (auto simp: create_demo_image_def split: if_splits)

lemma convert_cleanup_same:
  "same_converter s0 s \<Longrightarrow> same_converter s0 (convert_cleanup a b s)"
  by (simp add: convert_cleanup_def split: sum.splits option.splits)

lemma probe_cleanup_same:
  "same_converter s0 s \<Longrightarrow> same_converter s0 (probe_cleanup a b s)"
  by (simp add: probe_cleanup_def split: sum.splits)

lemma check_dependencies_same:
  "check_dependencies e s = (r, s') \<Longrightarrow> same_converter s0 s \<Longrightarrow> same_converter s0 s'"
  by (auto simp: check_dependencies_def
      split: option.splits prod.splits proc_result.splits if_splits
      dest: subprocess_run_same)

lemma write_config_same:
  "write_config e cfg s = Inr (c, s') \<Longrightarrow> same_converter s0 s \<Longrightarrow> same_converter s0 s'"
  by (auto simp: write_config_def split: option.splits if_splits sum.splits
      dest: named_temporary_file_same)

lemma convert_attempt_same:
  "convert_attempt e code out cfg tin s = (r, s') \<Longrightarrow> same_converter s0 s \<Longrightarrow> same_converter s0 s'"
  by (auto simp: convert_attempt_def
      split: option.splits prod.splits sum.splits proc_result.splits if_splits
      dest: create_demo_image_same write_config_same subprocess_run_same)

lemma convert_mermaid_text_same:
  "convert_mermaid_text e code out cfg s = (r, s') \<Longrightarrow> same_converter s0 s \<Longrightarrow> same_converter s0 s'"
  by (auto simp: convert_mermaid_text_def
      split: prod.splits sum.splits bool.splits if_splits
      dest: create_demo_image_same check_dependencies_same named_temporary_file_same
      intro: convert_cleanup_same convert_attempt_same)

lemma convert_file_same:
  "convert_file e inp outp cfg s = (r, s') \<Longrightarrow> same_converter s0 s \<Longrightarrow> same_converter s0 s'"
  by (auto simp: convert_file_def split: sum.splits prod.splits option.splits if_splits
      dest: convert_mermaid_text_same)

lemma batch_loop_same:
  "batch_loop e od cfg fs s = (r, s') \<Longrightarrow> same_converter s0 s \<Longrightarrow> same_converter s0 s'"
proof (induction fs arbitrary: s r s')
  case Nil
  then show ?case by simp
next
  case (Cons f fs)
  obtain r1 s1 where c: "convert_file e f (Some (batch_output_file od f)) cfg s = (r1, s1)"
    by (cases "convert_file e f (Some (batch_output_file od f)) cfg s")
  from convert_file_same[OF c Cons.prems(2)] have s1: "same_converter s0 s1" .
  obtain r2 s2 where l: "batch_loop e od cfg fs s1 = (r2, s2)"
    by (cases "batch_loop e od cfg fs s1")
  from Cons.IH[OF l s1] have s2: "same_converter s0 s2" .
  from Cons.prems(1) c l s1 s2 show ?case
    by (auto simp: Let_def split: sum.splits)
qed

lemma prepare_output_same:
  "prepare_output d od s = Inr (p, s') \<Longrightarrow> same_converter s0 s \<Longrightarrow> same_converter s0 s'"
  by (auto simp: prepare_output_def split: option.splits if_splits sum.splits)

lemma batch_convert_same:
  "batch_convert e d od cfg s = (r, s') \<Longrightarrow> same_converter s0 s \<Longrightarrow> same_converter s0 s'"
  by (auto simp: batch_convert_def Let_def split: sum.splits prod.splits if_splits
      dest: prepare_output_same batch_loop_same)

lemma test_conversion_same:
  "test_mermaid_cli_with_conversion e p s = (b, s') \<Longrightarrow> same_converter s0 s
     \<Longrightarrow> same_converter s0 s'"
  by (auto simp: test_mermaid_cli_with_conversion_def Let_def
      split: sum.splits prod.splits proc_result.splits
      dest: named_temporary_file_same subprocess_run_same intro: probe_cleanup_same)

lemma after_version_same:
  "after_version e p (r, s1) = (q, s') \<Longrightarrow> same_converter s0 s1 \<Longrightarrow> same_converter s0 s'"
  by (auto simp: after_version_def split: proc_result.splits prod.splits if_splits
      dest: test_conversion_same)

lemma try_candidate_same:
  assumes "try_candidate e p s = (q, s')" "same_converter s0 s"
  shows "same_converter s0 s'"
proof -
  have av: "\<And>c t. after_version e p (subprocess_run e c t s) = (q, s') \<Longrightarrow> same_converter s0 s'"
  proof -
    fix c t
    assume a: "after_version e p (subprocess_run e c t s) = (q, s')"
    obtain r s1 where rs: "subprocess_run e c t s = (r, s1)" by (cases "subprocess_run e c t s")
    from subprocess_run_same[OF rs assms(2)] have "same_converter s0 s1" .
    from after_version_same[OF _ this] a rs show "same_converter s0 s'" by simp
  qed
  from assms av show ?thesis
    by (auto simp: try_candidate_def Let_def split: prod.splits proc_result.splits if_splits
        dest: subprocess_run_same)
qed

lemma find_loop_same:
  "find_loop e ps s = (q, s') \<Longrightarrow> same_converter s0 s \<Longrightarrow> same_converter s0 s'"
proof (induction ps arbitrary: s)
  case Nil
  then show ?case by simp
next
  case (Cons p ps)
  obtain r s1 where t: "try_candidate e p s = (r, s1)" by (cases "try_candidate e p s")
  from try_candidate_same[OF t Cons.prems(2)] have s1: "same_converter s0 s1" .
  from Cons.IH[OF _ s1] Cons.prems(1) s1 t show ?case by (auto split: option.splits)
qed

lemma find_mermaid_cli_runs:
  "discovery_runs (snd (find_mermaid_cli e s)) = Suc (discovery_runs s)"
proof -
  obtain q s' where f: "find_loop e (possible_paths e) (s\<lparr>discovery_runs := Suc (discovery_runs s)\<rparr>) = (q, s')"
    by (cases "find_loop e (possible_paths e) (s\<lparr>discovery_runs := Suc (discovery_runs s)\<rparr>)")
  from find_loop_same[OF f same_converter_refl] f show ?thesis
    by (simp add: find_mermaid_cli_def same_converter_def)
qed

text \<open>
  C7. Construction runs \<open>_find_mermaid_cli\<close> exactly once and sets \<open>mermaid_cli\<close> and
  \<open>demo_mode\<close> from its result; \<open>convert_mermaid_text\<close>, \<open>convert_file\<close>,
  \<open>batch_convert\<close> and \<open>_check_dependencies\<close> leave both fields as they are and
  run no discovery.
\<close>

theorem converter_fixed_after_construction:
  "discovery_runs (MermaidConverter_init e s) = Suc (discovery_runs s)
   \<and> mermaid_cli (MermaidConverter_init e s) = fst (find_mermaid_cli e s)
   \<and> demo_mode (MermaidConverter_init e s) = (fst (find_mermaid_cli e s) = None)
   \<and> same_converter s (snd (convert_mermaid_text e code out cfg s))
   \<and> same_converter s (snd (convert_file e inp outp cfg s))
   \<and> same_converter s (snd (batch_convert e d od cfg s))
   \<and> same_converter s (snd (check_dependencies e s))"
proof -
  have 1: "discovery_runs (MermaidConverter_init e s) = Suc (discovery_runs s)"
    using find_mermaid_cli_runs[of e s]
    by (cases "find_mermaid_cli e s") (simp add: MermaidConverter_init_def)
  have 2: "mermaid_cli (MermaidConverter_init e s) = fst (find_mermaid_cli e s)"
    "demo_mode (MermaidConverter_init e s) = (fst (find_mermaid_cli e s) = None)"
    by (cases "find_mermaid_cli e s", simp add: MermaidConverter_init_def)+
  have 3: "same_converter s (snd (convert_mermaid_text e code out cfg s))"
    using convert_mermaid_text_same[OF _ same_converter_refl]
    by (cases "convert_mermaid_text e code out cfg s") auto
  have 4: "same_converter s (snd (convert_file e inp outp cfg s))"
    using convert_file_same[OF _ same_converter_refl]
    by (cases "convert_file e inp outp cfg s") auto
  have 5: "same_converter s (snd (batch_convert e d od cfg s))"
    using batch_convert_same[OF _ same_converter_refl]
    by (cases "batch_convert e d od cfg s") auto
  have 6: "same_converter s (snd (check_dependencies e s))"
    using check_dependencies_same[OF _ same_converter_refl]
    by (cases "check_dependencies e s") auto
  from 1 2 3 4 5 6 show ?thesis by simp
qed

section \<open>Fallback to the placeholder\<close>

lemma subprocess_run_cli:
  "subprocess_run e c t s = (r, s') \<Longrightarrow> mermaid_cli s' = mermaid_cli s"
  by (auto simp: subprocess_run_def split: prod.splits)

lemma check_dependencies_cli:
  "check_dependencies e s = (r, s') \<Longrightarrow> mermaid_cli s' = mermaid_cli s"
  using check_dependencies_same[of e s r s' s] by (simp add: same_converter_def)

lemma named_temporary_file_cli:
  "named_temporary_file e sfx c s = Inr (p, s') \<Longrightarrow> mermaid_cli s' = mermaid_cli s"
  using named_temporary_file_same[of e sfx c s p s' s] by (simp add: same_converter_def)

lemma write_config_cli:
  "write_config e cfg s = Inr (c, s') \<Longrightarrow> mermaid_cli s' = mermaid_cli s"
  using write_config_same[of e cfg s c s' s] by (simp add: same_converter_def)

lemma fallback_demo_mode:
  "demo_mode s \<Longrightarrow>
     convert_mermaid_text e code out cfg s =
       (Inr (fst (create_demo_image e code out s)), snd (create_demo_image e code out s))"
  by (simp add: convert_mermaid_text_def split: prod.splits)

lemma fallback_dependencies:
  "\<not> demo_mode s \<Longrightarrow> check_dependencies e s = (Inr False, s1) \<Longrightarrow>
     convert_mermaid_text e code out cfg s =
       (Inr (fst (create_demo_image e code out s1)), snd (create_demo_image e code out s1))"
  by (simp add: convert_mermaid_text_def split: prod.splits)

lemma fallback_config:
  assumes "\<not> demo_mode s" "check_dependencies e s = (Inr True, s1)"
    "named_temporary_file e ''.mmd'' (Text code) s1 = Inr (tin, s2)"
    "write_config e cfg s2 = Inl x"
  shows "convert_mermaid_text e code out cfg s =
       (Inr (fst (create_demo_image e code out s2)),
        convert_cleanup tin None (snd (create_demo_image e code out s2)))"
  using assms
  by (cases "mermaid_cli s2")
     (simp_all add: convert_mermaid_text_def convert_attempt_def split: prod.splits)

lemma fallback_conversion:
  assumes "\<not> demo_mode s" "check_dependencies e s = (Inr True, s1)"
    "named_temporary_file e ''.mmd'' (Text code) s1 = Inr (tin, s2)"
    "write_config e cfg s2 = Inr (cp, s3)"
    "mermaid_cli s = Some cli"
    "subprocess_run e (convert_cmd cli tin out cp) 45 s3 = (r, s4)"
    "conversion_failed r out s4"
  shows "convert_mermaid_text e code out cfg s =
       (Inr (fst (create_demo_image e code out s4)),
        convert_cleanup tin cp (snd (create_demo_image e code out s4)))"
proof -
  from assms(5) check_dependencies_cli[OF assms(2)] named_temporary_file_cli[OF assms(3)]
  have cli: "mermaid_cli s2 = Some cli" by simp
  have "convert_attempt e code out cfg tin s2 =
          ((fst (create_demo_image e code out s4), cp), snd (create_demo_image e code out s4))"
    using cli assms(4,6,7)
    by (auto simp: convert_attempt_def conversion_failed_def split: prod.splits proc_result.splits)
  with assms(1-3) show ?thesis
    by (simp add: convert_mermaid_text_def)
qed

lemmas eval_convert = convert_mermaid_text_def check_dependencies_def subprocess_run_def
  named_temporary_file_def write_config_def convert_attempt_def convert_cmd_def
  convert_cleanup_def create_demo_image_def conversion_failed_def os_path_exists_def
  os_unlink_def startswith_def
  env_none_def env_help_only_def state0_def state_demo_def state_mmdc_def

text \<open>
  C2. \<open>convert_mermaid_text\<close> returns the result of \<open>_create_demo_image\<close> on the same
  source text and output path, and raises nothing, in each of these cases: the converter
  is in demo mode (no active candidate); the dependency check answers \<open>False\<close> (no
  candidate, a non-zero exit or a timeout of the check); the configuration file cannot
  be created; the conversion process times out, cannot be run, exits with a non-zero
  code, or exits with zero and leaves no output file. In the last two cases the
  temporary files are cleaned up after the placeholder is drawn.
\<close>

theorem convert_mermaid_text_falls_back:
  "(demo_mode s \<longrightarrow>
      convert_mermaid_text e code out cfg s =
        (Inr (fst (create_demo_image e code out s)), snd (create_demo_image e code out s)))
   \<and> (\<not> demo_mode s \<and> check_dependencies e s = (Inr False, s1) \<longrightarrow>
      convert_mermaid_text e code out cfg s =
        (Inr (fst (create_demo_image e code out s1)), snd (create_demo_image e code out s1)))
   \<and> (\<not> demo_mode s \<and> check_dependencies e s = (Inr True, s1)
       \<and> named_temporary_file e ''.mmd'' (Text code) s1 = Inr (tin, s2)
       \<and> write_config e cfg s2 = Inl x \<longrightarrow>
      convert_mermaid_text e code out cfg s =
        (Inr (fst (create_demo_image e code out s2)),
         convert_cleanup tin None (snd (create_demo_image e code out s2))))
   \<and> (\<not> demo_mode s \<and> check_dependencies e s = (Inr True, s1)
       \<and> named_temporary_file e ''.mmd'' (Text code) s1 = Inr (tin, s2)
       \<and> write_config e cfg s2 = Inr (cp, s3)
       \<and> mermaid_cli s = Some cli
       \<and> subprocess_run e (convert_cmd cli tin out cp) 45 s3 = (r, s4)
       \<and> conversion_failed r out s4 \<longrightarrow>
      convert_mermaid_text e code out cfg s =
        (Inr (fst (create_demo_image e code out s4)),
         convert_cleanup tin cp (snd (create_demo_image e code out s4))))"
proof (intro conjI impI)
  assume "demo_mode s"
  then show "convert_mermaid_text e code out cfg s =
        (Inr (fst (create_demo_image e code out s)), snd (create_demo_image e code out s))"
    by (rule fallback_demo_mode)
next
  assume "\<not> demo_mode s \<and> check_dependencies e s = (Inr False, s1)"
  then show "convert_mermaid_text e code out cfg s =
        (Inr (fst (create_demo_image e code out s1)), snd (create_demo_image e code out s1))"
    by (elim conjE) (rule fallback_dependencies)
next
  assume "\<not> demo_mode s \<and> check_dependencies e s = (Inr True, s1)
       \<and> named_temporary_file e ''.mmd'' (Text code) s1 = Inr (tin, s2)
       \<and> write_config e cfg s2 = Inl x"
  then show "convert_mermaid_text e code out cfg s =
        (Inr (fst (create_demo_image e code out s2)),
         convert_cleanup tin None (snd (create_demo_image e code out s2)))"
    by (elim conjE) (rule fallback_config)
next
  assume "\<not> demo_mode s \<and> check_dependencies e s = (Inr True, s1)
       \<and> named_temporary_file e ''.mmd'' (Text code) s1 = Inr (tin, s2)
       \<and> write_config e cfg s2 = Inr (cp, s3)
       \<and> mermaid_cli s = Some cli
       \<and> subprocess_run e (convert_cmd cli tin out cp) 45 s3 = (r, s4)
       \<and> conversion_failed r out s4"
  then show "convert_mermaid_text e code out cfg s =
        (Inr (fst (create_demo_image e code out s4)),
         convert_cleanup tin cp (snd (create_demo_image e code out s4)))"
    by (elim conjE) (rule fallback_conversion)
qed

theorem convert_mermaid_text_falls_back_witness:
  "demo_mode state_demo
   \<and> fst (convert_mermaid_text env_none ''graph TD; A-->B'' ''out.png'' None state_demo) = Inr True
   \<and> fst (check_dependencies env_none state_mmdc) = Inr False
   \<and> fst (convert_mermaid_text env_none ''graph TD; A-->B'' ''out.png'' None state_mmdc) = Inr True
   \<and> fst (convert_mermaid_text env_help_only ''graph TD; A-->B'' ''out.png''
             (Some (JObj [(''theme'', JStr ''dark'')])) state_mmdc) = Inr True
   \<and> fst (convert_mermaid_text env_help_only ''graph TD; A-->B'' ''out.png'' None state_mmdc)
       = Inr True"
proof -
  let ?c = "''graph TD; A-->B''"
  let ?j = "Some (JObj [(''theme'', JStr ''dark'')])"
  have d: "demo_mode state_demo" by (simp add: state_demo_def)
  have 1: "fst (convert_mermaid_text env_none ?c ''out.png'' None state_demo) = Inr True"
    using convert_mermaid_text_falls_back [of state_demo env_none ?c "''out.png''" None] d
    by (simp add: create_demo_image_def env_none_def)
  let ?s1 = "snd (check_dependencies env_none state_mmdc)"
  have n: "\<not> demo_mode state_mmdc" by (simp add: state_mmdc_def state0_def)
  have c2f: "fst (check_dependencies env_none state_mmdc) = Inr False"
    by (simp add: eval_convert)
  then have c2: "check_dependencies env_none state_mmdc = (Inr False, ?s1)"
    by (simp add: prod_eq_iff)
  have 2: "fst (convert_mermaid_text env_none ?c ''out.png'' None state_mmdc) = Inr True"
    using convert_mermaid_text_falls_back [of state_mmdc env_none ?c "''out.png''" None ?s1] n c2
    by (simp add: create_demo_image_def env_none_def)
  let ?h1 = "snd (check_dependencies env_help_only state_mmdc)"
  let ?h2 = "?h1\<lparr>files := AList.update ''/tmp/tmp0.mmd'' (File (Text ?c)) (files ?h1)\<rparr>"
  have c3: "check_dependencies env_help_only state_mmdc = (Inr True, ?h1)"
    by (simp add: eval_convert prod_eq_iff)
  have t3: "named_temporary_file env_help_only ''.mmd'' (Text ?c) ?h1 = Inr (''/tmp/tmp0.mmd'', ?h2)"
    by (simp add: eval_convert)
  have w3: "write_config env_help_only ?j ?h2 = Inl OSError"
    by (simp add: eval_convert)
  have 3: "fst (convert_mermaid_text env_help_only ?c ''out.png'' ?j state_mmdc) = Inr True"
    using convert_mermaid_text_falls_back
      [of state_mmdc env_help_only ?c "''out.png''" ?j ?h1 "''/tmp/tmp0.mmd''" ?h2 OSError]
      n c3 t3 w3
    by (simp add: create_demo_image_def env_help_only_def env_none_def)
  let ?cmd = "convert_cmd ''mmdc'' ''/tmp/tmp0.mmd'' ''out.png'' None"
  let ?h4 = "snd (subprocess_run env_help_only ?cmd 45 ?h2)"
  have w4: "write_config env_help_only None ?h2 = Inr (None, ?h2)"
    by (simp add: write_config_def)
  have m4: "mermaid_cli state_mmdc = Some ''mmdc''" by (simp add: state_mmdc_def)
  have r4: "subprocess_run env_help_only ?cmd 45 ?h2 = (TimeoutExpired, ?h4)"
    by (simp add: eval_convert prod_eq_iff)
  have f4: "conversion_failed TimeoutExpired ''out.png'' ?h4"
    by (simp add: conversion_failed_def)
  have 4: "fst (convert_mermaid_text env_help_only ?c ''out.png'' None state_mmdc) = Inr True"
    using convert_mermaid_text_falls_back
      [of state_mmdc env_help_only ?c "''out.png''" None ?h1 "''/tmp/tmp0.mmd''" ?h2 _ None ?h2
          "''mmdc''" TimeoutExpired ?h4]
      n c3 t3 w4 m4 r4 f4
    by (simp add: create_demo_image_def env_help_only_def env_none_def)
  from d 1 2 3 4 c2f show ?thesis by simp
qed

section \<open>The placeholder image\<close>

lemma excerpt_texts_append: "excerpt_texts (xs @ ys) = excerpt_texts xs @ excerpt_texts ys"
  by (induction xs rule: excerpt_texts.induct) auto

lemma excerpt_texts_code_lines:
  "excerpt_texts (concat (map (\<lambda>(i, line).
       if strip_nonempty line
       then [DrawText (100, 450 + 20 + int i * 15) (take 50 line) ''#95a5a6'' f]
       else []) (enumerate n lines)))
   = map (take 50) (filter strip_nonempty lines)"
  by (induction lines arbitrary: n) auto

lemma excerpt_texts_demo_image:
  "excerpt_texts (img_ops (demo_image e code))
     = map (take 50) (filter strip_nonempty (take 5 (split_nl code)))"
  by (simp add: demo_image_def Let_def excerpt_texts_append code_ops_def excerpt_texts_code_lines)

text \<open>
  C3, as amended. The image \<open>_create_demo_image\<close> writes shows, as the code excerpt, the
  lines among the first five lines of the input (split at newlines) that are not blank,
  in order, each cut to its first 50 characters.
\<close>

theorem demo_image_excerpt:
  assumes "create_demo_image e code out s = (True, s')"
  shows "map_of (files s') out = Some (File (Png (demo_image e code)))
         \<and> excerpt_texts (img_ops (demo_image e code))
             = map (take 50) (filter strip_nonempty (take 5 (split_nl code)))"
  using assms
  by (auto simp: create_demo_image_def excerpt_texts_demo_image update_conv' split: if_splits)

theorem demo_image_excerpt_witness:
  "create_demo_image env_none code_gap ''out.png'' state0
     = (True, state0\<lparr>files := [(''out.png'', File (Png (demo_image env_none code_gap)))]\<rparr>)
   \<and> map_of [(''out.png'', File (Png (demo_image env_none code_gap)))] ''out.png''
       = Some (File (Png (demo_image env_none code_gap)))
   \<and> excerpt_texts (img_ops (demo_image env_none code_gap)) = [''a'', ''b'', ''c'', ''d'']"
proof -
  have h: "create_demo_image env_none code_gap ''out.png'' state0
     = (True, state0\<lparr>files := [(''out.png'', File (Png (demo_image env_none code_gap)))]\<rparr>)"
    by (simp add: create_demo_image_def env_none_def state0_def)
  have v: "map (take 50) (filter strip_nonempty (take 5 (split_nl code_gap)))
             = [''a'', ''b'', ''c'', ''d'']"
    by (simp add: code_gap_def nl_def strip_nonempty_def isspace_def)
  show ?thesis
    using h v demo_image_excerpt [OF h] by simp
qed

text \<open>
  C3, as stated, fails: of six lines of which the second is empty, the image shows four,
  while the first five non-empty lines are five.
\<close>

theorem excerpt_skips_fifth_nonempty_line:
  "excerpt_texts (img_ops (demo_image env_none code_gap)) = [''a'', ''b'', ''c'', ''d'']
   \<and> spec_excerpt 5 50 code_gap = [''a'', ''b'', ''c'', ''d'', ''e'']"
  by (simp add: excerpt_texts_demo_image spec_excerpt_def code_gap_def nl_def
      strip_nonempty_def isspace_def)

text \<open>
  C9, as amended. \<open>_create_demo_image\<close> never raises. It returns \<open>True\<close> exactly when
  PIL can be imported and the image can be saved at the output path, and then the output
  path holds the placeholder image and nothing else changed; otherwise it returns
  \<open>False\<close> and changes nothing.
\<close>

theorem create_demo_image_result:
  assumes "create_demo_image e code out s = (b, s')"
  shows "b = (pil_available e \<and> can_write e out (files s))
         \<and> (if b then files s' = AList.update out (File (Png (demo_image e code))) (files s)
                     \<and> map_of (files s') out = Some (File (Png (demo_image e code)))
                     \<and> proc_log s' = proc_log s
            else s' = s)"
  using assms
  by (auto simp: create_demo_image_def update_conv' split: if_splits)

theorem create_demo_image_result_witness:
  "create_demo_image env_none ''graph TD; A-->B'' ''out.png'' state0
     = (True, state0\<lparr>files := [(''out.png'', File (Png (demo_image env_none ''graph TD; A-->B'')))]\<rparr>)
   \<and> pil_available env_none \<and> can_write env_none ''out.png'' (files state0)"
proof -
  have h: "create_demo_image env_none ''graph TD; A-->B'' ''out.png'' state0
     = (True, state0\<lparr>files := [(''out.png'', File (Png (demo_image env_none ''graph TD; A-->B'')))]\<rparr>)"
    by (simp add: create_demo_image_def env_none_def state0_def)
  show ?thesis
    using h create_demo_image_result [OF h] by simp
qed

text \<open>
  C9, as stated, fails: with PIL available, a save that raises makes the placeholder
  renderer return \<open>False\<close>.
\<close>

theorem placeholder_fails_when_save_raises:
  "pil_available env_ro
   \<and> create_demo_image env_ro ''graph TD; A-->B'' ''out.png'' state0 = (False, state0)"
  by (simp add: create_demo_image_def env_ro_def env_none_def)

section \<open>Properties of the web API\<close>





section \<open>Properties of the command line\<close>

lemmas eval_main = main_def main_dispatch_def given_def arg_str_def args_none_def
  MermaidConverter_init_def batch_convert_def convert_file_def is_dir_def

text \<open>In directory mode the exit code is 0 exactly when the two counts are equal.\<close>

lemma main_batch_exit_code:
  assumes "\<not> arg_check a" "\<not> arg_sample a" "\<not> given (arg_text a)" "\<not> given (arg_file a)"
    "given (arg_directory a)"
    "batch_convert e (arg_str (arg_directory a)) (arg_output_directory a) cfg s
       = (Inr (successful, total_count), s')"
  shows "main_dispatch e a cfg s = (Inr (if successful = total_count then 0 else 1), s')"
  using assms by (simp add: main_dispatch_def)

text \<open>
  C5, at an input where it fails. For an input directory that does not exist
  \<open>batch_convert\<close> returns \<open>(0, 0)\<close> and \<open>main\<close> returns exit code 0, while for an
  input file that does not exist it returns 1.
\<close>

theorem main_missing_directory_exits_zero:
  "\<not> os_path_exists ''/data/diagrams'' (files state0)
   \<and> fst (main env_none (args_none\<lparr>arg_directory := Some ''/data/diagrams''\<rparr>) state0) = Inr 0
   \<and> fst (main env_none (args_none\<lparr>arg_file := Some ''/data/diagram.mmd''\<rparr>) state0) = Inr 1"
  by (simp add: eval_main eval_find)

end
